theory Spec2Isabelle
  imports Main "HOL-Library.Sublist" "HOL-Library.Multiset"
begin

section \<open>Python values\<close>

text \<open>
  The values the plugins handle are what \<^verbatim>\<open>json.loads\<close> returns and what a row of the
  reference query holds: \<^verbatim>\<open>None\<close>, booleans, unbounded integers, floats, strings, lists
  and dicts with string keys. A string is kept as its UTF-8 bytes. A float is kept as the
  text \<^verbatim>\<open>str\<close> prints for it (the plugins do no arithmetic; they only print values).
  A dict is an association list in insertion order; a lookup takes the first
  entry of a key, and a Python dict has one entry per key.
\<close>

datatype pyval =
    PNone
  | PBool bool
  | PInt int
  | PFloat string
  | PStr string
  | PList "pyval list"
  | PDict "(string \<times> pyval) list"

type_synonym pydict = "(string \<times> pyval) list"

text \<open>The exceptions of the classifier plugins. \<open>Raised\<close> is any exception that comes
  out of a collaborator (the JSON parser, the host, the database), with its message.\<close>

datatype exn = TypeError | AttributeError | Raised string

subsection \<open>\<^verbatim>\<open>str\<close> and \<^verbatim>\<open>repr\<close>\<close>

text \<open>\<^verbatim>\<open>str\<close> of a string is the string; of any other value it is \<^verbatim>\<open>repr\<close>. The
  \<^verbatim>\<open>repr\<close> of a string quotes it and escapes, character by character, the quote, the
  backslash, the ASCII control characters, and every character beyond ASCII that the
  Unicode database of the interpreter counts as not printable. That table is no part of the
  plugins: it is the parameter \<open>printable\<close>, on code points. \<^verbatim>\<open>str\<close> of an integer is
  its decimal digits; an integer beyond the interpreter's limit of digits is refused by the
  parser already, so none reaches the plugins.\<close>

fun digits :: "nat \<Rightarrow> string" where
  "digits n = (if n < 10 then [char_of (48 + n)]
               else digits (n div 10) @ [char_of (48 + n mod 10)])"

declare digits.simps [simp del]

definition str_int :: "int \<Rightarrow> string" where
  "str_int i = (if i < 0 then CHR ''-'' # digits (nat (- i)) else digits (nat i))"

text \<open>The characters of a string kept as UTF-8: a byte \<open>10xxxxxx\<close> continues the
  character before it.\<close>

definition is_cont :: "char \<Rightarrow> bool" where
  "is_cont c = (128 \<le> (of_char c :: nat) \<and> (of_char c :: nat) < 192)"

function utf8_chars :: "string \<Rightarrow> string list" where
  "utf8_chars [] = []"
| "utf8_chars (c # cs) = (c # takeWhile is_cont cs) # utf8_chars (dropWhile is_cont cs)"
  by pat_completeness auto
termination
  by (relation "measure length") (auto simp: less_Suc_eq_le length_dropWhile_le)

text \<open>The code point of one character, from its UTF-8 bytes: the payload bits of the
  first byte, then six bits of every byte that follows.\<close>

definition code_point :: "string \<Rightarrow> nat" where
  "code_point bs =
     (case bs of
        [] \<Rightarrow> 0
      | b # rest \<Rightarrow>
          foldl (\<lambda>a c. a * 64 + of_char c mod 64)
            (if rest = [] then of_char b else of_char b mod 2 ^ (6 - length rest)) rest)"

definition hex_digit :: "nat \<Rightarrow> char" where
  "hex_digit n = (if n < 10 then char_of (48 + n) else char_of (87 + n))"

text \<open>The \<open>w\<close> lowercase hexadecimal digits of \<open>n\<close>.\<close>

definition hex :: "nat \<Rightarrow> nat \<Rightarrow> string" where
  "hex w n = map (\<lambda>i. hex_digit (n div 16 ^ i mod 16)) (rev [0..<w])"

definition repr_quote :: "string \<Rightarrow> char" where
  "repr_quote s = (if CHR 0x27 \<in> set s \<and> CHR 0x22 \<notin> set s then CHR 0x22 else CHR 0x27)"

text \<open>One character \<open>c\<close>, given by its bytes, inside the quotes \<open>q\<close>.\<close>

definition repr_char :: "(nat \<Rightarrow> bool) \<Rightarrow> char \<Rightarrow> string \<Rightarrow> string" where
  "repr_char printable q c =
     (let cp = code_point c in
      if c = [q] \<or> c = [CHR 0x5C] then CHR 0x5C # c
      else if c = [CHR 0x09] then [CHR 0x5C, CHR ''t'']
      else if c = [CHR 0x0A] then [CHR 0x5C, CHR ''n'']
      else if c = [CHR 0x0D] then [CHR 0x5C, CHR ''r'']
      else if cp < 32 \<or> cp = 127 then [CHR 0x5C, CHR ''x''] @ hex 2 cp
      else if cp < 127 then c
      else if printable cp then c
      else if cp < 256 then [CHR 0x5C, CHR ''x''] @ hex 2 cp
      else if cp < 65536 then [CHR 0x5C, CHR ''u''] @ hex 4 cp
      else [CHR 0x5C, CHR ''U''] @ hex 8 cp)"

definition repr_str :: "(nat \<Rightarrow> bool) \<Rightarrow> string \<Rightarrow> string" where
  "repr_str printable s =
     (let q = repr_quote s in q # concat (map (repr_char printable q) (utf8_chars s)) @ [q])"

fun py_repr :: "(nat \<Rightarrow> bool) \<Rightarrow> pyval \<Rightarrow> string"
  and repr_elems :: "(nat \<Rightarrow> bool) \<Rightarrow> pyval list \<Rightarrow> string"
  and repr_items :: "(nat \<Rightarrow> bool) \<Rightarrow> pydict \<Rightarrow> string" where
  "py_repr printable PNone = ''None''"
| "py_repr printable (PBool b) = (if b then ''True'' else ''False'')"
| "py_repr printable (PInt i) = str_int i"
| "py_repr printable (PFloat t) = t"
| "py_repr printable (PStr s) = repr_str printable s"
| "py_repr printable (PList xs) = ''['' @ repr_elems printable xs @ '']''"
| "py_repr printable (PDict kvs) = ''{'' @ repr_items printable kvs @ ''}''"
| "repr_elems printable [] = []"
| "repr_elems printable [x] = py_repr printable x"
| "repr_elems printable (x # y # ys) = py_repr printable x @ '', '' @ repr_elems printable (y # ys)"
| "repr_items printable [] = []"
| "repr_items printable [(k, v)] = repr_str printable k @ '': '' @ py_repr printable v"
| "repr_items printable ((k, v) # kv # kvs) =
     repr_str printable k @ '': '' @ py_repr printable v @ '', '' @ repr_items printable (kv # kvs)"

definition py_str :: "(nat \<Rightarrow> bool) \<Rightarrow> pyval \<Rightarrow> string" where
  "py_str printable v = (case v of PStr s \<Rightarrow> s | _ \<Rightarrow> py_repr printable v)"

text \<open>A table for the examples below: the interpreter's on the code points below 256,
  where U+0080 to U+00A0 and U+00AD are not printable. The examples hold no character
  beyond.\<close>

definition printable_latin1 :: "nat \<Rightarrow> bool" where
  "printable_latin1 cp = (\<not> (128 \<le> cp \<and> cp \<le> 160) \<and> cp \<noteq> 173)"

subsection \<open>Dictionaries and iteration\<close>

text \<open>\<^verbatim>\<open>d.get(k)\<close> on a dict with a string key: the value, or \<^verbatim>\<open>None\<close> when the key
  is missing.\<close>

definition field :: "pydict \<Rightarrow> string \<Rightarrow> pyval" where
  "field d k = (case map_of d k of None \<Rightarrow> PNone | Some v \<Rightarrow> v)"

text \<open>\<^verbatim>\<open>item.get(flow_col)\<close>: only a dict has the method \<^verbatim>\<open>get\<close>. The key is a key of
  the parsed column mapping, hence a string.\<close>

definition item_get :: "pyval \<Rightarrow> string \<Rightarrow> exn + pyval" where
  "item_get item flow_col =
     (case item of PDict d \<Rightarrow> Inr (field d flow_col) | _ \<Rightarrow> Inl AttributeError)"

text \<open>\<^verbatim>\<open>db_row.get(db_col)\<close>: the row is a dict keyed by column labels, which are
  strings; the key is a value of the parsed column mapping, so any JSON value. A list or a
  dict is unhashable; any other key that is not a string is found in no row.\<close>

definition row_get :: "pydict \<Rightarrow> pyval \<Rightarrow> exn + pyval" where
  "row_get db_row db_col =
     (case db_col of
        PStr k \<Rightarrow> Inr (field db_row k)
      | PList _ \<Rightarrow> Inl TypeError
      | PDict _ \<Rightarrow> Inl TypeError
      | _ \<Rightarrow> Inr PNone)"

text \<open>\<^verbatim>\<open>column_mapping.items()\<close>: only a dict has the method.\<close>

definition py_items :: "pyval \<Rightarrow> exn + (string \<times> pyval) list" where
  "py_items column_mapping =
     (case column_mapping of PDict kvs \<Rightarrow> Inr kvs | _ \<Rightarrow> Inl AttributeError)"

text \<open>\<^verbatim>\<open>for item in flow_data\<close>: a list gives its elements, a string its characters,
  a dict its keys; the other JSON values are not iterable.\<close>

definition py_iter :: "pyval \<Rightarrow> exn + pyval list" where
  "py_iter flow_data =
     (case flow_data of
        PList xs \<Rightarrow> Inr xs
      | PStr s \<Rightarrow> Inr (map PStr (utf8_chars s))
      | PDict kvs \<Rightarrow> Inr (map (PStr \<circ> fst) kvs)
      | _ \<Rightarrow> Inl TypeError)"

section \<open>Transformation results\<close>

text \<open>A \<^verbatim>\<open>FlowFileTransformResult\<close>: the relationship (output channel) and the contents.
  \<^verbatim>\<open>json.dumps\<close> is the library's serialiser; the model keeps the value handed to it.\<close>

datatype contents = Json_dumps pyval | Text string

record FlowFileTransformResult =
  relationship :: string
  contents :: contents

section \<open>TrinoCheckDuplicates (check\_duplicates.py)\<close>

text \<open>The \<^verbatim>\<open>all(...)\<close> over the pairs of the column mapping: the pairs are tested in
  order and the test stops at the first pair that differs; in a pair, the item's field is
  read first, then the row's.\<close>

fun trino_all :: "(nat \<Rightarrow> bool) \<Rightarrow> pyval \<Rightarrow> pydict \<Rightarrow> (string \<times> pyval) list \<Rightarrow> exn + bool" where
  "trino_all printable item db_row [] = Inr True"
| "trino_all printable item db_row ((flow_col, db_col) # rest) =
     (case item_get item flow_col of
        Inl e \<Rightarrow> Inl e
      | Inr a \<Rightarrow>
         (case row_get db_row db_col of
            Inl e \<Rightarrow> Inl e
          | Inr b \<Rightarrow> if py_str printable a = py_str printable b then trino_all printable item db_row rest else Inr False))"

text \<open>The inner loop, \<^verbatim>\<open>for db_row in db_rows\<close>, with its \<^verbatim>\<open>break\<close>: the value of
  \<^verbatim>\<open>is_duplicate\<close> after the loop. \<^verbatim>\<open>column_mapping.items()\<close> is evaluated at every
  row.\<close>

fun trino_is_duplicate :: "(nat \<Rightarrow> bool) \<Rightarrow> pyval \<Rightarrow> pydict list \<Rightarrow> pyval \<Rightarrow> exn + bool" where
  "trino_is_duplicate printable item [] column_mapping = Inr False"
| "trino_is_duplicate printable item (db_row # db_rows) column_mapping =
     (case py_items column_mapping of
        Inl e \<Rightarrow> Inl e
      | Inr pairs \<Rightarrow>
         (case trino_all printable item db_row pairs of
            Inl e \<Rightarrow> Inl e
          | Inr True \<Rightarrow> Inr True
          | Inr False \<Rightarrow> trino_is_duplicate printable item db_rows column_mapping))"

text \<open>The outer loop, \<^verbatim>\<open>for item in flow_data\<close>, over the two lists
  \<^verbatim>\<open>(non_duplicates, duplicates)\<close> it appends to.\<close>

fun trino_loop :: "(nat \<Rightarrow> bool) \<Rightarrow> pyval list \<Rightarrow> pydict list \<Rightarrow> pyval \<Rightarrow> pyval list \<times> pyval list
    \<Rightarrow> exn + pyval list \<times> pyval list" where
  "trino_loop printable [] db_rows column_mapping acc = Inr acc"
| "trino_loop printable (item # items) db_rows column_mapping (non_duplicates, duplicates) =
     (case trino_is_duplicate printable item db_rows column_mapping of
        Inl e \<Rightarrow> Inl e
      | Inr True \<Rightarrow> trino_loop printable items db_rows column_mapping (non_duplicates, duplicates @ [item])
      | Inr False \<Rightarrow> trino_loop printable items db_rows column_mapping (non_duplicates @ [item], duplicates))"

text \<open>\<^verbatim>\<open>TrinoCheckDuplicates.transform\<close>. Its three inputs are the outcomes of the calls
  it makes to its collaborators, in the order it makes them: decoding and parsing the
  flowfile content (lines 106 to 108), parsing the column mapping property (lines 114 to
  118), and running the query through the Trino engine up to \<^verbatim>\<open>df.to_dict\<close> (lines 120
  to 131). The result is the exception that leaves the method, or what it returns:
  a result, or \<^verbatim>\<open>None\<close>.\<close>

definition TrinoCheckDuplicates_transform ::
    "(nat \<Rightarrow> bool) \<Rightarrow> exn + pyval \<Rightarrow> exn + pyval \<Rightarrow> exn + pydict list \<Rightarrow> exn + FlowFileTransformResult option" where
  "TrinoCheckDuplicates_transform printable loads_contents loads_mapping read_sql =
     (case loads_contents of
        Inl e \<Rightarrow> Inl e
      | Inr parsed \<Rightarrow>
         (let flow_data = (case parsed of PDict d \<Rightarrow> PList [parsed] | _ \<Rightarrow> parsed) in
          case loads_mapping of
            Inl e \<Rightarrow> Inl e
          | Inr column_mapping \<Rightarrow>
             (case read_sql of
                Inl e \<Rightarrow> Inl e
              | Inr db_rows \<Rightarrow>
                 (case py_iter flow_data of
                    Inl e \<Rightarrow> Inl e
                  | Inr items \<Rightarrow>
                     (case trino_loop printable items db_rows column_mapping ([], []) of
                        Inl e \<Rightarrow> Inl e
                      | Inr (non_duplicates, duplicates) \<Rightarrow>
                          if non_duplicates \<noteq> [] then
                            Inr (Some \<lparr>relationship = ''success'',
                                       contents = Json_dumps (PList non_duplicates)\<rparr>)
                          else if duplicates \<noteq> [] then
                            Inr (Some \<lparr>relationship = ''duplicate'',
                                       contents = Json_dumps (PList duplicates)\<rparr>)
                          else Inr None)))))"

section \<open>CheckDuplicates (check\_duplicates\_service.py)\<close>

fun svc_all :: "(nat \<Rightarrow> bool) \<Rightarrow> pyval \<Rightarrow> pydict \<Rightarrow> (string \<times> pyval) list \<Rightarrow> exn + bool" where
  "svc_all printable item db_row [] = Inr True"
| "svc_all printable item db_row ((flow_col, db_col) # rest) =
     (case item_get item flow_col of
        Inl e \<Rightarrow> Inl e
      | Inr a \<Rightarrow>
         (case row_get db_row db_col of
            Inl e \<Rightarrow> Inl e
          | Inr b \<Rightarrow> if py_str printable a = py_str printable b then svc_all printable item db_row rest else Inr False))"

fun svc_is_duplicate :: "(nat \<Rightarrow> bool) \<Rightarrow> pyval \<Rightarrow> pydict list \<Rightarrow> pyval \<Rightarrow> exn + bool" where
  "svc_is_duplicate printable item [] column_mapping = Inr False"
| "svc_is_duplicate printable item (db_row # db_rows) column_mapping =
     (case py_items column_mapping of
        Inl e \<Rightarrow> Inl e
      | Inr pairs \<Rightarrow>
         (case svc_all printable item db_row pairs of
            Inl e \<Rightarrow> Inl e
          | Inr True \<Rightarrow> Inr True
          | Inr False \<Rightarrow> svc_is_duplicate printable item db_rows column_mapping))"

fun svc_loop :: "(nat \<Rightarrow> bool) \<Rightarrow> pyval list \<Rightarrow> pydict list \<Rightarrow> pyval \<Rightarrow> pyval list \<times> pyval list
    \<Rightarrow> exn + pyval list \<times> pyval list" where
  "svc_loop printable [] db_rows column_mapping acc = Inr acc"
| "svc_loop printable (item # items) db_rows column_mapping (non_duplicates, duplicates) =
     (case svc_is_duplicate printable item db_rows column_mapping of
        Inl e \<Rightarrow> Inl e
      | Inr True \<Rightarrow> svc_loop printable items db_rows column_mapping (non_duplicates, duplicates @ [item])
      | Inr False \<Rightarrow> svc_loop printable items db_rows column_mapping (non_duplicates @ [item], duplicates))"

text \<open>\<^verbatim>\<open>CheckDuplicates.transform\<close>. As above, with the third input the outcome of
  reading the query's rows through the pooled connection, its nested
  \<^verbatim>\<open>try\<close>/\<^verbatim>\<open>finally\<close> blocks and \<^verbatim>\<open>df.to_dict\<close> (lines 80 to 108): the rows, or the
  exception that leaves those lines.\<close>

definition CheckDuplicates_transform ::
    "(nat \<Rightarrow> bool) \<Rightarrow> exn + pyval \<Rightarrow> exn + pyval \<Rightarrow> exn + pydict list \<Rightarrow> exn + FlowFileTransformResult option" where
  "CheckDuplicates_transform printable loads_contents loads_mapping fetch_rows =
     (case loads_contents of
        Inl e \<Rightarrow> Inl e
      | Inr parsed \<Rightarrow>
         (let flow_data = (case parsed of PDict d \<Rightarrow> PList [parsed] | _ \<Rightarrow> parsed) in
          case loads_mapping of
            Inl e \<Rightarrow> Inl e
          | Inr column_mapping \<Rightarrow>
             (case fetch_rows of
                Inl e \<Rightarrow> Inl e
              | Inr db_rows \<Rightarrow>
                 (case py_iter flow_data of
                    Inl e \<Rightarrow> Inl e
                  | Inr items \<Rightarrow>
                     (case svc_loop printable items db_rows column_mapping ([], []) of
                        Inl e \<Rightarrow> Inl e
                      | Inr (non_duplicates, duplicates) \<Rightarrow>
                          if non_duplicates \<noteq> [] then
                            Inr (Some \<lparr>relationship = ''success'',
                                       contents = Json_dumps (PList non_duplicates)\<rparr>)
                          else if duplicates \<noteq> [] then
                            Inr (Some \<lparr>relationship = ''duplicate'',
                                       contents = Json_dumps (PList duplicates)\<rparr>)
                          else Inr None)))))"

section \<open>GeoJSONTransform (geojson\_transform.py)\<close>

text \<open>An exception as the handler \<^verbatim>\<open>except Exception as e\<close> sees it: the text of
  \<^verbatim>\<open>str(e)\<close> and the text of \<^verbatim>\<open>traceback.format_exc()\<close>, the stack trace.\<close>

record caught =
  str_e :: string
  format_exc :: string

definition error_details :: "caught \<Rightarrow> string" where
  "error_details e =
     ''Error transforming GeoJSON to WKT: '' @ str_e e @ [CHR 0x0A, CHR 0x0A]
       @ ''Traceback:'' @ [CHR 0x0A] @ format_exc e"

text \<open>\<^verbatim>\<open>GeoJSONTransform.transform\<close>. The body of its \<^verbatim>\<open>try\<close> (lines 44 to 98) works on
  geometries in floating point through \<^verbatim>\<open>shapely\<close> and \<^verbatim>\<open>pyproj\<close>; its outcome is the
  input: the text \<^verbatim>\<open>result_contents\<close>, or the exception raised, an instance of
  \<^verbatim>\<open>Exception\<close>. The log is
  the list of lines written through \<^verbatim>\<open>self.logger.error\<close>.\<close>

definition GeoJSONTransform_transform ::
    "string list \<Rightarrow> caught + string
      \<Rightarrow> string list \<times> (exn + FlowFileTransformResult option)" where
  "GeoJSONTransform_transform log body =
     (case body of
        Inr result_contents \<Rightarrow>
          (log, Inr (Some \<lparr>relationship = ''success'', contents = Text result_contents\<rparr>))
      | Inl e \<Rightarrow>
          (log @ [error_details e],
           Inr (Some \<lparr>relationship = ''failure'', contents = Text (error_details e)\<rparr>)))"

section \<open>The classification of the specification\<close>

text \<open>The specification's words: a record \<open>r\<close> matches a reference record \<open>d\<close> if, for
  every pair \<open>(sourceField, targetField)\<close> of the mapping, the string representation of
  \<open>r[sourceField]\<close> equals that of \<open>d[targetField]\<close>; \<open>r\<close> is matched if some
  reference record matches it.\<close>

definition spec_matches :: "(nat \<Rightarrow> bool) \<Rightarrow> (string \<times> string) list \<Rightarrow> pydict \<Rightarrow> pydict \<Rightarrow> bool" where
  "spec_matches printable mapping r d =
     list_all (\<lambda>(sourceField, targetField).
        py_str printable (field r sourceField) = py_str printable (field d targetField)) mapping"

definition spec_matched :: "(nat \<Rightarrow> bool) \<Rightarrow> (string \<times> string) list \<Rightarrow> pydict list \<Rightarrow> pydict \<Rightarrow> bool" where
  "spec_matched printable mapping reference r = list_ex (spec_matches printable mapping r) reference"

text \<open>A field mapping, from field names to column names, as the JSON object it is parsed
  from.\<close>

definition mapping_object :: "(string \<times> string) list \<Rightarrow> pyval" where
  "mapping_object mapping = PDict (map (\<lambda>(sourceField, targetField). (sourceField, PStr targetField)) mapping)"

section \<open>Properties\<close>

subsection \<open>The two loops agree; the loop on records\<close>

lemma svc_all_eq: "svc_all printable item db_row pairs = trino_all printable item db_row pairs"
  by (induction printable item db_row pairs rule: trino_all.induct) (auto split: sum.splits)

lemma svc_is_duplicate_eq:
  "svc_is_duplicate printable item db_rows cm = trino_is_duplicate printable item db_rows cm"
  by (induction db_rows) (auto simp: svc_all_eq split: sum.splits bool.splits)

lemma svc_loop_eq: "svc_loop printable items db_rows cm acc = trino_loop printable items db_rows cm acc"
proof (induction items arbitrary: acc)
  case Nil
  show ?case by simp
next
  case (Cons item items)
  obtain nd d where acc: "acc = (nd, d)" by (cases acc)
  show ?case unfolding acc
    by (simp add: svc_is_duplicate_eq Cons.IH split: sum.splits bool.splits)
qed

lemma svc_transform_eq:
  "CheckDuplicates_transform printable c m l = TrinoCheckDuplicates_transform printable c m l"
  unfolding CheckDuplicates_transform_def TrinoCheckDuplicates_transform_def svc_loop_eq ..

lemma trino_all_records:
  "trino_all printable (PDict r) d (map (\<lambda>(s, t). (s, PStr t)) m) = Inr (spec_matches printable m r d)"
  by (induction m) (auto simp: spec_matches_def item_get_def row_get_def)

lemma trino_is_duplicate_records:
  "trino_is_duplicate printable (PDict r) rows (mapping_object m) = Inr (spec_matched printable m rows r)"
  by (induction rows)
     (auto simp: spec_matched_def mapping_object_def py_items_def trino_all_records
           split: bool.splits)

lemma trino_loop_records_acc:
  "trino_loop printable (map PDict rs) rows (mapping_object m) (nd, d)
     = Inr (nd @ map PDict (filter (\<lambda>r. \<not> spec_matched printable m rows r) rs),
            d @ map PDict (filter (spec_matched printable m rows) rs))"
  by (induction rs arbitrary: nd d) (auto simp: trino_is_duplicate_records)

lemma trino_loop_no_rows:
  "trino_loop printable items [] cm (nd, d) = Inr (nd @ items, d)"
  by (induction items arbitrary: nd d) auto

lemma trino_loop_empty_mapping:
  "trino_loop printable items (row # rows) (PDict []) (nd, d) = Inr (nd, d @ items)"
  by (induction items arbitrary: nd d) (auto simp: py_items_def)


lemma svc_loop_no_rows: "svc_loop printable items [] cm (nd, d) = Inr (nd @ items, d)"
  by (simp add: svc_loop_eq trino_loop_no_rows)

lemma svc_loop_empty_mapping:
  "svc_loop printable items (row # rows) (PDict []) (nd, d) = Inr (nd, d @ items)"
  by (simp add: svc_loop_eq trino_loop_empty_mapping)

lemma trino_transform_channels:
  "TrinoCheckDuplicates_transform printable c m l = Inr (Some res) \<Longrightarrow>
     relationship res = ''success'' \<or> relationship res = ''duplicate''"
  by (auto simp: TrinoCheckDuplicates_transform_def Let_def
           split: sum.splits if_splits prod.splits)

lemma count_list_filter:
  "count_list (filter P xs) x = (if P x then count_list xs x else 0)"
  by (induction xs) auto

lemma mset_filter_split: "mset (filter (\<lambda>r. \<not> P r) xs) + mset (filter P xs) = mset xs"
  by (induction xs) auto

lemma spec_matched_iff:
  "spec_matched printable m reference r \<longleftrightarrow>
     (\<exists>d\<in>set reference. \<forall>(s, t)\<in>set m. py_str printable (field r s) = py_str printable (field d t))"
  by (auto simp: spec_matched_def spec_matches_def list_ex_iff list_all_iff)

subsection \<open>The claims\<close>

text \<open>
  Claim C1. In both plugins, when the content iterates to \<open>items\<close> and the loop leaves
  the partitions \<open>(unmatched, matched)\<close>: if \<open>unmatched\<close> is not empty the result goes
  to \<^verbatim>\<open>success\<close> with exactly \<open>unmatched\<close> as payload, whatever \<open>matched\<close> holds;
  if \<open>unmatched\<close> is empty and \<open>matched\<close> is not, it goes to \<^verbatim>\<open>duplicate\<close> with
  exactly \<open>matched\<close>; if both are empty, the method returns \<^verbatim>\<open>None\<close>.
\<close>
theorem C1_output_selection:
  assumes "py_iter (case parsed of PDict d \<Rightarrow> PList [parsed] | _ \<Rightarrow> parsed) = Inr items"
    and "trino_loop printable items db_rows column_mapping ([], []) = Inr (unmatched, matched)"
  shows "svc_loop printable items db_rows column_mapping ([], []) = Inr (unmatched, matched)
    \<and> (unmatched \<noteq> [] \<longrightarrow>
         TrinoCheckDuplicates_transform printable (Inr parsed) (Inr column_mapping) (Inr db_rows)
           = Inr (Some \<lparr>relationship = ''success'', contents = Json_dumps (PList unmatched)\<rparr>)
       \<and> CheckDuplicates_transform printable (Inr parsed) (Inr column_mapping) (Inr db_rows)
           = Inr (Some \<lparr>relationship = ''success'', contents = Json_dumps (PList unmatched)\<rparr>))
    \<and> (unmatched = [] \<and> matched \<noteq> [] \<longrightarrow>
         TrinoCheckDuplicates_transform printable (Inr parsed) (Inr column_mapping) (Inr db_rows)
           = Inr (Some \<lparr>relationship = ''duplicate'', contents = Json_dumps (PList matched)\<rparr>)
       \<and> CheckDuplicates_transform printable (Inr parsed) (Inr column_mapping) (Inr db_rows)
           = Inr (Some \<lparr>relationship = ''duplicate'', contents = Json_dumps (PList matched)\<rparr>))
    \<and> (unmatched = [] \<and> matched = [] \<longrightarrow>
         TrinoCheckDuplicates_transform printable (Inr parsed) (Inr column_mapping) (Inr db_rows) = Inr None
       \<and> CheckDuplicates_transform printable (Inr parsed) (Inr column_mapping) (Inr db_rows) = Inr None)"
proof -
  have t: "TrinoCheckDuplicates_transform printable (Inr parsed) (Inr column_mapping) (Inr db_rows) =
      (if unmatched \<noteq> [] then
         Inr (Some \<lparr>relationship = ''success'', contents = Json_dumps (PList unmatched)\<rparr>)
       else if matched \<noteq> [] then
         Inr (Some \<lparr>relationship = ''duplicate'', contents = Json_dumps (PList matched)\<rparr>)
       else Inr None)"
    using assms by (simp add: TrinoCheckDuplicates_transform_def)
  have s: "CheckDuplicates_transform printable (Inr parsed) (Inr column_mapping) (Inr db_rows) =
      TrinoCheckDuplicates_transform printable (Inr parsed) (Inr column_mapping) (Inr db_rows)"
    by (rule svc_transform_eq)
  have l: "svc_loop printable items db_rows column_mapping ([], []) = Inr (unmatched, matched)"
    using assms(2) by (simp add: svc_loop_eq)
  show ?thesis unfolding s t using l by simp
qed


theorem C1_output_selection_witness:
  "py_iter (PList [PDict [(''id'', PInt 5)], PDict [(''id'', PInt 6)]])
     = Inr [PDict [(''id'', PInt 5)], PDict [(''id'', PInt 6)]]
   \<and> trino_loop printable_latin1 [PDict [(''id'', PInt 5)], PDict [(''id'', PInt 6)]]
        [[(''ID'', PStr ''5'')]] (mapping_object [(''id'', ''ID'')]) ([], [])
     = Inr ([PDict [(''id'', PInt 6)]], [PDict [(''id'', PInt 5)]])
   \<and> TrinoCheckDuplicates_transform printable_latin1
        (Inr (PList [PDict [(''id'', PInt 5)], PDict [(''id'', PInt 6)]]))
        (Inr (mapping_object [(''id'', ''ID'')])) (Inr [[(''ID'', PStr ''5'')]])
     = Inr (Some \<lparr>relationship = ''success'',
                   contents = Json_dumps (PList [PDict [(''id'', PInt 6)]])\<rparr>)
   \<and> CheckDuplicates_transform printable_latin1
        (Inr (PList [PDict [(''id'', PInt 5)], PDict [(''id'', PInt 6)]]))
        (Inr (mapping_object [(''id'', ''ID'')])) (Inr [[(''ID'', PStr ''5'')]])
     = Inr (Some \<lparr>relationship = ''success'',
                   contents = Json_dumps (PList [PDict [(''id'', PInt 6)]])\<rparr>)"
proof -
  let ?A = "PDict [(''id'', PInt 5)]" and ?B = "PDict [(''id'', PInt 6)]"
  have h1: "py_iter (case PList [?A, ?B] of PDict d \<Rightarrow> PList [PList [?A, ?B]] | _ \<Rightarrow> PList [?A, ?B])
              = Inr [?A, ?B]"
    by (simp add: py_iter_def)
  have h2: "trino_loop printable_latin1 [?A, ?B] [[(''ID'', PStr ''5'')]] (mapping_object [(''id'', ''ID'')]) ([], [])
              = Inr ([?B], [?A])"
    by code_simp
  from C1_output_selection [OF h1 h2] h2 show ?thesis
    by (simp add: py_iter_def)
qed

text \<open>
  Claim C2. On records, reference rows and a field mapping, whatever the table of
  printable characters, both loops put a record in the
  matched partition exactly when some reference row agrees with it on every pair of the
  mapping, the two sides compared through \<^verbatim>\<open>str\<close>; a missing field reads as
  \<^verbatim>\<open>None\<close>, so two missing fields agree; the integer \<open>5\<close> and the string \<open>5\<close>
  agree; and a matched record occurs in the matched partition as often as in the incoming
  list, however many reference rows agree with it.
\<close>
theorem C2_matched_iff:
  "trino_loop printable (map PDict rs) reference (mapping_object mapping) ([], [])
     = Inr (map PDict (filter (\<lambda>r. \<not> spec_matched printable mapping reference r) rs),
            map PDict (filter (spec_matched printable mapping reference) rs))
   \<and> svc_loop printable (map PDict rs) reference (mapping_object mapping) ([], [])
     = Inr (map PDict (filter (\<lambda>r. \<not> spec_matched printable mapping reference r) rs),
            map PDict (filter (spec_matched printable mapping reference) rs))
   \<and> (spec_matched printable mapping reference r \<longleftrightarrow>
        (\<exists>d\<in>set reference. \<forall>(sourceField, targetField)\<in>set mapping.
            py_str printable (field r sourceField) = py_str printable (field d targetField)))
   \<and> (map_of r sourceField = None \<longrightarrow> field r sourceField = PNone)
   \<and> (map_of r sourceField = None \<and> map_of d targetField = None \<longrightarrow>
        py_str printable (field r sourceField) = py_str printable (field d targetField))
   \<and> py_str printable (PInt 5) = py_str printable (PStr ''5'')
   \<and> count_list (filter (spec_matched printable mapping reference) rs) r
        = (if spec_matched printable mapping reference r then count_list rs r else 0)"
proof -
  have a: "trino_loop printable (map PDict rs) reference (mapping_object mapping) ([], [])
     = Inr (map PDict (filter (\<lambda>r. \<not> spec_matched printable mapping reference r) rs),
            map PDict (filter (spec_matched printable mapping reference) rs))"
    using trino_loop_records_acc [of printable rs reference mapping "[]" "[]"] by simp
  have b: "py_str printable (PInt 5) = py_str printable (PStr ''5'')"
    by code_simp
  have c: "map_of r sourceField = None \<longrightarrow> field r sourceField = PNone"
    by (simp add: field_def)
  have d: "map_of r sourceField = None \<and> map_of d targetField = None \<longrightarrow>
        py_str printable (field r sourceField) = py_str printable (field d targetField)"
    by (simp add: field_def)
  show ?thesis
    unfolding svc_loop_eq
    using a b c d spec_matched_iff [of printable mapping reference r]
      count_list_filter [of "spec_matched printable mapping reference" rs r]
    by blast
qed


theorem C2_matched_iff_witness:
  "trino_loop printable_latin1 (map PDict [[(''id'', PInt 5)], [(''name'', PStr ''x'')]])
      [[(''ID'', PStr ''5'')], [(''ID'', PStr ''5''), (''k'', PNone)]]
      (mapping_object [(''id'', ''ID'')]) ([], [])
     = Inr ([PDict [(''name'', PStr ''x'')]], [PDict [(''id'', PInt 5)]])
   \<and> svc_loop printable_latin1 (map PDict [[(''id'', PInt 5)], [(''name'', PStr ''x'')]])
      [[(''ID'', PStr ''5'')], [(''ID'', PStr ''5''), (''k'', PNone)]]
      (mapping_object [(''id'', ''ID'')]) ([], [])
     = Inr ([PDict [(''name'', PStr ''x'')]], [PDict [(''id'', PInt 5)]])
   \<and> map_of [(''id'', PInt 5)] ''zz'' = None
   \<and> field [(''id'', PInt 5)] ''zz'' = PNone
   \<and> map_of [(''ID'', PStr ''5'')] ''yy'' = None
   \<and> py_str printable_latin1 (field [(''id'', PInt 5)] ''zz'')
       = py_str printable_latin1 (field [(''ID'', PStr ''5'')] ''yy'')
   \<and> trino_loop printable_latin1 (map PDict [[(''k'', PList [PStr [CHR 0xC2, CHR 0xA0]])]])
      [[(''K'', PStr [CHR ''['', CHR 0x27, CHR 0x5C, CHR ''x'', CHR ''a'', CHR ''0'', CHR 0x27, CHR '']''])]]
      (mapping_object [(''k'', ''K'')]) ([], [])
     = Inr ([], [PDict [(''k'', PList [PStr [CHR 0xC2, CHR 0xA0]])]])"
proof -
  let ?rs = "[[(''id'', PInt 5)], [(''name'', PStr ''x'')]]"
  let ?rs' = "[[(''k'', PList [PStr [CHR 0xC2, CHR 0xA0]])]]"
  let ?ref' = "[[(''K'', PStr [CHR ''['', CHR 0x27, CHR 0x5C, CHR ''x'', CHR ''a'', CHR ''0'', CHR 0x27, CHR '']''])]]"
  let ?m' = "[(''k'', ''K'')]"
  have m3: "spec_matched printable_latin1 ?m' ?ref' [(''k'', PList [PStr [CHR 0xC2, CHR 0xA0]])]"
    by code_simp
  let ?ref = "[[(''ID'', PStr ''5'')], [(''ID'', PStr ''5''), (''k'', PNone)]]"
  let ?m = "[(''id'', ''ID'')]"
  have m1: "spec_matched printable_latin1 ?m ?ref [(''id'', PInt 5)]" by code_simp
  have m2: "\<not> spec_matched printable_latin1 ?m ?ref [(''name'', PStr ''x'')]" by code_simp
  have n1: "map_of [(''id'', PInt 5)] ''zz'' = None" by simp
  have n2: "map_of [(''ID'', PStr ''5'')] ''yy'' = None" by simp
  from C2_matched_iff [of printable_latin1 ?rs ?ref ?m "[(''id'', PInt 5)]" "''zz''" "[(''ID'', PStr ''5'')]" "''yy''"]
    C2_matched_iff [of printable_latin1 ?rs' ?ref' ?m' "[]" "''zz''" "[]" "''yy''"]
    m1 m2 m3 n1 n2
  show ?thesis by (simp del: trino_loop.simps svc_loop.simps add: field_def)
qed

text \<open>
  Claim C3. On records, reference rows and a field mapping (with at least one pair, or
  none), both loops return two partitions such that every incoming record is in exactly
  one of them, every occurrence is kept, and each partition is a subsequence of the
  incoming list: the incoming order is preserved.
\<close>
theorem C3_partition:
  "trino_loop printable (map PDict rs) reference (mapping_object mapping) ([], [])
     = Inr (map PDict (filter (\<lambda>r. \<not> spec_matched printable mapping reference r) rs),
            map PDict (filter (spec_matched printable mapping reference) rs))
   \<and> svc_loop printable (map PDict rs) reference (mapping_object mapping) ([], [])
     = Inr (map PDict (filter (\<lambda>r. \<not> spec_matched printable mapping reference r) rs),
            map PDict (filter (spec_matched printable mapping reference) rs))
   \<and> (\<forall>r\<in>set rs.
          (r \<in> set (filter (\<lambda>r. \<not> spec_matched printable mapping reference r) rs))
            \<noteq> (r \<in> set (filter (spec_matched printable mapping reference) rs)))
   \<and> mset (filter (\<lambda>r. \<not> spec_matched printable mapping reference r) rs)
        + mset (filter (spec_matched printable mapping reference) rs) = mset rs
   \<and> subseq (filter (\<lambda>r. \<not> spec_matched printable mapping reference r) rs) rs
   \<and> subseq (filter (spec_matched printable mapping reference) rs) rs"
proof -
  have a: "trino_loop printable (map PDict rs) reference (mapping_object mapping) ([], [])
     = Inr (map PDict (filter (\<lambda>r. \<not> spec_matched printable mapping reference r) rs),
            map PDict (filter (spec_matched printable mapping reference) rs))"
    using trino_loop_records_acc [of printable rs reference mapping "[]" "[]"] by simp
  have b: "\<forall>r\<in>set rs.
          (r \<in> set (filter (\<lambda>r. \<not> spec_matched printable mapping reference r) rs))
            \<noteq> (r \<in> set (filter (spec_matched printable mapping reference) rs))"
    by auto
  show ?thesis
    unfolding svc_loop_eq
    using a b mset_filter_split [of "spec_matched printable mapping reference" rs]
    by simp
qed

theorem C3_partition_witness:
  "trino_loop printable_latin1 (map PDict [[(''id'', PInt 1)], [(''id'', PInt 2)], [(''id'', PInt 3)], [(''id'', PInt 2)]])
      [[(''ID'', PInt 2)]] (mapping_object [(''id'', ''ID'')]) ([], [])
     = Inr ([PDict [(''id'', PInt 1)], PDict [(''id'', PInt 3)]],
            [PDict [(''id'', PInt 2)], PDict [(''id'', PInt 2)]])
   \<and> subseq [[(''id'', PInt 1)], [(''id'', PInt 3)]]
        [[(''id'', PInt 1)], [(''id'', PInt 2)], [(''id'', PInt 3)], [(''id'', PInt 2)]]
   \<and> subseq [[(''id'', PInt 2)], [(''id'', PInt 2)]]
        [[(''id'', PInt 1)], [(''id'', PInt 2)], [(''id'', PInt 3)], [(''id'', PInt 2)]]"
proof -
  let ?ref = "[[(''ID'', PInt 2)]]"
  let ?m = "[(''id'', ''ID'')]"
  have m1: "\<not> spec_matched printable_latin1 ?m ?ref [(''id'', PInt 1)]" by code_simp
  have m2: "spec_matched printable_latin1 ?m ?ref [(''id'', PInt 2)]" by code_simp
  have m3: "\<not> spec_matched printable_latin1 ?m ?ref [(''id'', PInt 3)]" by code_simp
  from C3_partition [of printable_latin1 "[[(''id'', PInt 1)], [(''id'', PInt 2)], [(''id'', PInt 3)], [(''id'', PInt 2)]]" ?ref ?m]
    m1 m2 m3
  show ?thesis by (simp del: trino_loop.simps svc_loop.simps)
qed

text \<open>
  Claim C4 says that with an empty field mapping every incoming record is matched,
  whatever the reference rows. With no reference row the inner loop makes no pass: the
  record is unmatched, and goes out on \<^verbatim>\<open>success\<close>.
\<close>
theorem C4_counterexample:
  "trino_loop printable_latin1 [PDict [(''id'', PInt 1)]] [] (mapping_object []) ([], [])
     = Inr ([PDict [(''id'', PInt 1)]], [])
   \<and> svc_loop printable_latin1 [PDict [(''id'', PInt 1)]] [] (mapping_object []) ([], [])
     = Inr ([PDict [(''id'', PInt 1)]], [])
   \<and> TrinoCheckDuplicates_transform printable_latin1 (Inr (PList [PDict [(''id'', PInt 1)]]))
        (Inr (mapping_object [])) (Inr [])
     = Inr (Some \<lparr>relationship = ''success'',
                   contents = Json_dumps (PList [PDict [(''id'', PInt 1)]])\<rparr>)
   \<and> CheckDuplicates_transform printable_latin1 (Inr (PList [PDict [(''id'', PInt 1)]]))
        (Inr (mapping_object [])) (Inr [])
     = Inr (Some \<lparr>relationship = ''success'',
                   contents = Json_dumps (PList [PDict [(''id'', PInt 1)]])\<rparr>)"
  by (simp add: TrinoCheckDuplicates_transform_def CheckDuplicates_transform_def
        mapping_object_def py_iter_def)

text \<open>
  Claim C4, amended. If the field mapping is empty and there is at least one reference
  row, both loops classify every incoming record as matched.
\<close>
theorem C4_empty_mapping_matched:
  assumes "reference \<noteq> []"
  shows "trino_loop printable items reference (mapping_object []) ([], []) = Inr ([], items)
       \<and> svc_loop printable items reference (mapping_object []) ([], []) = Inr ([], items)"
proof -
  from assms obtain row rows where r: "reference = row # rows"
    by (cases reference) auto
  show ?thesis
    unfolding r mapping_object_def
    by (simp add: trino_loop_empty_mapping svc_loop_empty_mapping)
qed

theorem C4_empty_mapping_matched_witness:
  "[[(''id'', PInt 2)]] \<noteq> []
   \<and> trino_loop printable_latin1 [PDict [(''id'', PInt 1)], PDict []] [[(''id'', PInt 2)]] (mapping_object []) ([], [])
       = Inr ([], [PDict [(''id'', PInt 1)], PDict []])
   \<and> svc_loop printable_latin1 [PDict [(''id'', PInt 1)], PDict []] [[(''id'', PInt 2)]] (mapping_object []) ([], [])
       = Inr ([], [PDict [(''id'', PInt 1)], PDict []])"
proof -
  have h: "[[(''id'', PInt 2)]] \<noteq> ([] :: pydict list)" by simp
  from C4_empty_mapping_matched [OF h, of printable_latin1 "[PDict [(''id'', PInt 1)], PDict []]"] h
  show ?thesis by blast
qed

text \<open>
  Claim C5 says that with an empty field mapping every incoming record is a
  non-duplicate. With one reference row, \<^verbatim>\<open>all\<close> over no pair is true at that row: the
  record is a duplicate, and goes out on \<^verbatim>\<open>duplicate\<close>.
\<close>
theorem C5_counterexample:
  "trino_loop printable_latin1 [PDict [(''id'', PInt 1)]] [[(''id'', PInt 2)]] (mapping_object []) ([], [])
     = Inr ([], [PDict [(''id'', PInt 1)]])
   \<and> svc_loop printable_latin1 [PDict [(''id'', PInt 1)]] [[(''id'', PInt 2)]] (mapping_object []) ([], [])
     = Inr ([], [PDict [(''id'', PInt 1)]])
   \<and> TrinoCheckDuplicates_transform printable_latin1 (Inr (PList [PDict [(''id'', PInt 1)]]))
        (Inr (mapping_object [])) (Inr [[(''id'', PInt 2)]])
     = Inr (Some \<lparr>relationship = ''duplicate'',
                   contents = Json_dumps (PList [PDict [(''id'', PInt 1)]])\<rparr>)
   \<and> CheckDuplicates_transform printable_latin1 (Inr (PList [PDict [(''id'', PInt 1)]]))
        (Inr (mapping_object [])) (Inr [[(''id'', PInt 2)]])
     = Inr (Some \<lparr>relationship = ''duplicate'',
                   contents = Json_dumps (PList [PDict [(''id'', PInt 1)]])\<rparr>)"
  by (simp add: TrinoCheckDuplicates_transform_def CheckDuplicates_transform_def
        mapping_object_def py_iter_def py_items_def)

text \<open>
  Claim C5, amended. If the field mapping is empty and there is no reference row, both
  loops classify every incoming record as a non-duplicate.
\<close>
theorem C5_empty_mapping_no_reference:
  assumes "reference = []"
  shows "trino_loop printable items reference (mapping_object []) ([], []) = Inr (items, [])
       \<and> svc_loop printable items reference (mapping_object []) ([], []) = Inr (items, [])"
  unfolding assms by (simp add: trino_loop_no_rows svc_loop_no_rows)

theorem C5_empty_mapping_no_reference_witness:
  "trino_loop printable_latin1 [PDict [(''id'', PInt 1)], PDict []] [] (mapping_object []) ([], [])
       = Inr ([PDict [(''id'', PInt 1)], PDict []], [])
   \<and> svc_loop printable_latin1 [PDict [(''id'', PInt 1)], PDict []] [] (mapping_object []) ([], [])
       = Inr ([PDict [(''id'', PInt 1)], PDict []], [])"
  by (rule C5_empty_mapping_no_reference [OF refl])

text \<open>
  Claim C6. The two plugins compute the same test of a row, the same classification of an
  item, the same partitions, and, given the same outcomes of parsing and of the row
  loader, the same result: the same channel with the same payload, no result, or the same
  exception. They differ in how the rows are obtained, which is the third input.
\<close>
theorem C6_variants_agree:
  "svc_all printable item db_row pairs = trino_all printable item db_row pairs
   \<and> svc_is_duplicate printable item db_rows column_mapping = trino_is_duplicate printable item db_rows column_mapping
   \<and> svc_loop printable items db_rows column_mapping acc = trino_loop printable items db_rows column_mapping acc
   \<and> CheckDuplicates_transform printable loads_contents loads_mapping rows
       = TrinoCheckDuplicates_transform printable loads_contents loads_mapping rows"
  by (simp add: svc_all_eq svc_is_duplicate_eq svc_loop_eq svc_transform_eq)

theorem C6_variants_agree_witness:
  "CheckDuplicates_transform printable_latin1
      (Inr (PList [PDict [(''id'', PInt 5)], PDict [(''id'', PInt 6)]]))
      (Inr (mapping_object [(''id'', ''ID'')])) (Inr [[(''ID'', PStr ''5'')]])
   = TrinoCheckDuplicates_transform printable_latin1
      (Inr (PList [PDict [(''id'', PInt 5)], PDict [(''id'', PInt 6)]]))
      (Inr (mapping_object [(''id'', ''ID'')])) (Inr [[(''ID'', PStr ''5'')]])"
  by (rule C6_variants_agree [THEN conjunct2, THEN conjunct2, THEN conjunct2])

text \<open>
  Claim C7. In both plugins, an exception while parsing the content, while parsing the
  field mapping, or while fetching the reference rows leaves the method as it is; so does
  an exception raised while iterating or classifying. A result that is returned is on
  \<^verbatim>\<open>success\<close> or \<^verbatim>\<open>duplicate\<close>: there is no failure channel.
\<close>
theorem C7_errors_propagate:
  "TrinoCheckDuplicates_transform printable (Inl e) loads_mapping rows = Inl e
   \<and> TrinoCheckDuplicates_transform printable (Inr parsed) (Inl e) rows = Inl e
   \<and> TrinoCheckDuplicates_transform printable (Inr parsed) (Inr column_mapping) (Inl e) = Inl e
   \<and> CheckDuplicates_transform printable (Inl e) loads_mapping rows = Inl e
   \<and> CheckDuplicates_transform printable (Inr parsed) (Inl e) rows = Inl e
   \<and> CheckDuplicates_transform printable (Inr parsed) (Inr column_mapping) (Inl e) = Inl e
   \<and> (py_iter (case parsed of PDict d \<Rightarrow> PList [parsed] | _ \<Rightarrow> parsed) = Inl e \<longrightarrow>
        TrinoCheckDuplicates_transform printable (Inr parsed) (Inr column_mapping) (Inr db_rows) = Inl e
        \<and> CheckDuplicates_transform printable (Inr parsed) (Inr column_mapping) (Inr db_rows) = Inl e)
   \<and> (trino_loop printable items db_rows column_mapping ([], []) = Inl e \<longrightarrow>
        TrinoCheckDuplicates_transform printable (Inr (PList items)) (Inr column_mapping) (Inr db_rows) = Inl e
        \<and> CheckDuplicates_transform printable (Inr (PList items)) (Inr column_mapping) (Inr db_rows) = Inl e)
   \<and> (TrinoCheckDuplicates_transform printable loads_contents loads_mapping rows = Inr (Some res) \<longrightarrow>
        relationship res = ''success'' \<or> relationship res = ''duplicate'')
   \<and> (CheckDuplicates_transform printable loads_contents loads_mapping rows = Inr (Some res) \<longrightarrow>
        relationship res = ''success'' \<or> relationship res = ''duplicate'')"
proof -
  have a: "TrinoCheckDuplicates_transform printable (Inl e) loads_mapping rows = Inl e"
    by (simp add: TrinoCheckDuplicates_transform_def)
  have b: "TrinoCheckDuplicates_transform printable (Inr parsed) (Inl e) rows = Inl e"
    by (simp add: TrinoCheckDuplicates_transform_def)
  have c: "TrinoCheckDuplicates_transform printable (Inr parsed) (Inr column_mapping) (Inl e) = Inl e"
    by (simp add: TrinoCheckDuplicates_transform_def)
  have d: "py_iter (case parsed of PDict d \<Rightarrow> PList [parsed] | _ \<Rightarrow> parsed) = Inl e \<longrightarrow>
        TrinoCheckDuplicates_transform printable (Inr parsed) (Inr column_mapping) (Inr db_rows) = Inl e"
    by (simp add: TrinoCheckDuplicates_transform_def)
  have f: "trino_loop printable items db_rows column_mapping ([], []) = Inl e \<longrightarrow>
        TrinoCheckDuplicates_transform printable (Inr (PList items)) (Inr column_mapping) (Inr db_rows) = Inl e"
    by (simp add: TrinoCheckDuplicates_transform_def py_iter_def)
  have g: "TrinoCheckDuplicates_transform printable loads_contents loads_mapping rows = Inr (Some res) \<longrightarrow>
        relationship res = ''success'' \<or> relationship res = ''duplicate''"
    using trino_transform_channels by blast
  show ?thesis
    unfolding svc_transform_eq using a b c d f g by blast
qed

theorem C7_errors_propagate_witness:
  "TrinoCheckDuplicates_transform printable_latin1 (Inl (Raised ''JSONDecodeError''))
       (Inr (mapping_object [])) (Inr []) = Inl (Raised ''JSONDecodeError'')
   \<and> CheckDuplicates_transform printable_latin1 (Inr (PList [])) (Inl (Raised ''JSONDecodeError''))
       (Inr []) = Inl (Raised ''JSONDecodeError'')
   \<and> CheckDuplicates_transform printable_latin1 (Inr (PList [])) (Inr (mapping_object []))
       (Inl (Raised ''JSONDecodeError'')) = Inl (Raised ''JSONDecodeError'')
   \<and> py_iter (PInt 7) = Inl TypeError
   \<and> TrinoCheckDuplicates_transform printable_latin1 (Inr (PInt 7)) (Inr (mapping_object [])) (Inr [])
       = Inl TypeError
   \<and> trino_loop printable_latin1 [PInt 7] [[(''ID'', PInt 7)]] (mapping_object [(''id'', ''ID'')]) ([], [])
       = Inl AttributeError
   \<and> CheckDuplicates_transform printable_latin1 (Inr (PList [PInt 7])) (Inr (mapping_object [(''id'', ''ID'')]))
       (Inr [[(''ID'', PInt 7)]]) = Inl AttributeError
   \<and> TrinoCheckDuplicates_transform printable_latin1 (Inr (PList [PInt 7])) (Inr (mapping_object []))
       (Inr []) = Inr (Some \<lparr>relationship = ''success'', contents = Json_dumps (PList [PInt 7])\<rparr>)
   \<and> relationship \<lparr>relationship = ''success'', contents = Json_dumps (PList [PInt 7])\<rparr>
       = ''success''"
proof -
  let ?e = "Raised ''JSONDecodeError''"
  have h1: "py_iter (case PInt 7 of PDict d \<Rightarrow> PList [PInt 7] | _ \<Rightarrow> PInt 7) = Inl TypeError"
    by (simp add: py_iter_def)
  have h2: "trino_loop printable_latin1 [PInt 7] [[(''ID'', PInt 7)]] (mapping_object [(''id'', ''ID'')]) ([], [])
       = Inl AttributeError"
    by (simp add: mapping_object_def py_items_def item_get_def)
  have h3: "TrinoCheckDuplicates_transform printable_latin1 (Inr (PList [PInt 7])) (Inr (mapping_object []))
       (Inr []) = Inr (Some \<lparr>relationship = ''success'', contents = Json_dumps (PList [PInt 7])\<rparr>)"
    by (simp add: TrinoCheckDuplicates_transform_def py_iter_def)
  from C7_errors_propagate
         [of printable_latin1 ?e "Inr (mapping_object [])" "Inr []" "PList []" "mapping_object []"]
       C7_errors_propagate
         [of printable_latin1 TypeError "Inr (mapping_object [])" "Inr []" "PInt 7" "mapping_object []" "[]"]
       C7_errors_propagate
         [of printable_latin1 AttributeError "Inr (mapping_object [])" "Inr []" "PList [PInt 7]"
            "mapping_object [(''id'', ''ID'')]" "[[(''ID'', PInt 7)]]" "[PInt 7]"]
       h1 h2 h3
  show ?thesis by simp
qed

text \<open>
  Claim C8. When the body of the geometry transform raises an exception, the method does
  not fail: it returns a result on \<^verbatim>\<open>failure\<close> whose payload is the diagnostic text,
  which it also logs; the text is the fixed prefix, \<^verbatim>\<open>str(e)\<close>, and the stack trace at
  its end.
\<close>
theorem C8_geo_failure:
  "GeoJSONTransform_transform log (Inl e)
     = (log @ [error_details e],
        Inr (Some \<lparr>relationship = ''failure'', contents = Text (error_details e)\<rparr>))
   \<and> error_details e
     = ''Error transforming GeoJSON to WKT: '' @ str_e e @ [CHR 0x0A, CHR 0x0A]
         @ ''Traceback:'' @ [CHR 0x0A] @ format_exc e
   \<and> suffix (format_exc e) (error_details e)"
proof -
  have "suffix (format_exc e) (error_details e)"
    unfolding error_details_def
    by (rule suffixI [where zs = "''Error transforming GeoJSON to WKT: '' @ str_e e
          @ [CHR 0x0A, CHR 0x0A] @ ''Traceback:'' @ [CHR 0x0A]"]) simp
  then show ?thesis
    by (simp add: GeoJSONTransform_transform_def error_details_def)
qed

theorem C8_geo_failure_witness:
  "GeoJSONTransform_transform []
      (Inl \<lparr>str_e = ''Unknown geometry type'', format_exc = ''Traceback (most recent call last)''\<rparr>)
     = ([error_details
           \<lparr>str_e = ''Unknown geometry type'', format_exc = ''Traceback (most recent call last)''\<rparr>],
        Inr (Some \<lparr>relationship = ''failure'', contents = Text (error_details
           \<lparr>str_e = ''Unknown geometry type'', format_exc = ''Traceback (most recent call last)''\<rparr>)\<rparr>))"
  using C8_geo_failure [of "[]"
      "\<lparr>str_e = ''Unknown geometry type'', format_exc = ''Traceback (most recent call last)''\<rparr>"]
  by simp

text \<open>
  Claim C9. A content that parses to a single JSON object is handled, in both plugins,
  exactly as the one-element array holding that object.
\<close>
theorem C9_single_object:
  "TrinoCheckDuplicates_transform printable (Inr (PDict d)) loads_mapping rows
     = TrinoCheckDuplicates_transform printable (Inr (PList [PDict d])) loads_mapping rows
   \<and> CheckDuplicates_transform printable (Inr (PDict d)) loads_mapping rows
     = CheckDuplicates_transform printable (Inr (PList [PDict d])) loads_mapping rows"
  by (simp add: TrinoCheckDuplicates_transform_def CheckDuplicates_transform_def)

theorem C9_single_object_witness:
  "TrinoCheckDuplicates_transform printable_latin1 (Inr (PDict [(''id'', PInt 5)]))
       (Inr (mapping_object [(''id'', ''ID'')])) (Inr [[(''ID'', PStr ''5'')]])
     = TrinoCheckDuplicates_transform printable_latin1 (Inr (PList [PDict [(''id'', PInt 5)]]))
       (Inr (mapping_object [(''id'', ''ID'')])) (Inr [[(''ID'', PStr ''5'')]])"
  by (rule C9_single_object [THEN conjunct1])

text \<open>
  Claim C10. With no reference row, a non-empty incoming list and any field mapping, both
  loops classify every incoming item as a non-duplicate, and both plugins return the
  whole incoming list on \<^verbatim>\<open>success\<close>.
\<close>
theorem C10_no_reference_rows:
  assumes "items \<noteq> []"
  shows "trino_loop printable items [] column_mapping ([], []) = Inr (items, [])
     \<and> svc_loop printable items [] column_mapping ([], []) = Inr (items, [])
     \<and> TrinoCheckDuplicates_transform printable (Inr (PList items)) (Inr column_mapping) (Inr [])
         = Inr (Some \<lparr>relationship = ''success'', contents = Json_dumps (PList items)\<rparr>)
     \<and> CheckDuplicates_transform printable (Inr (PList items)) (Inr column_mapping) (Inr [])
         = Inr (Some \<lparr>relationship = ''success'', contents = Json_dumps (PList items)\<rparr>)"
  using assms
  by (simp add: TrinoCheckDuplicates_transform_def CheckDuplicates_transform_def
        py_iter_def trino_loop_no_rows svc_loop_no_rows)

theorem C10_no_reference_rows_witness:
  "[PDict [(''id'', PInt 5)], PDict [(''id'', PInt 6)]] \<noteq> []
   \<and> TrinoCheckDuplicates_transform printable_latin1
        (Inr (PList [PDict [(''id'', PInt 5)], PDict [(''id'', PInt 6)]]))
        (Inr (mapping_object [(''id'', ''ID'')])) (Inr [])
       = Inr (Some \<lparr>relationship = ''success'',
            contents = Json_dumps (PList [PDict [(''id'', PInt 5)], PDict [(''id'', PInt 6)]])\<rparr>)
   \<and> CheckDuplicates_transform printable_latin1
        (Inr (PList [PDict [(''id'', PInt 5)], PDict [(''id'', PInt 6)]]))
        (Inr (mapping_object [])) (Inr [])
       = Inr (Some \<lparr>relationship = ''success'',
            contents = Json_dumps (PList [PDict [(''id'', PInt 5)], PDict [(''id'', PInt 6)]])\<rparr>)"
proof -
  have h: "[PDict [(''id'', PInt 5)], PDict [(''id'', PInt 6)]] \<noteq> []" by simp
  from C10_no_reference_rows [OF h, of printable_latin1 "mapping_object [(''id'', ''ID'')]"]
       C10_no_reference_rows [OF h, of printable_latin1 "mapping_object []"] h
  show ?thesis by blast
qed

end
